theory Spec2Isabelle
  imports Complex_Main
begin

section \<open>Common Python error values\<close>

text \<open>
  Exceptions of the Python sources are values: a function that can raise returns
  \<open>py_error + 'a\<close>, with \<open>Inl\<close> for the exception.
\<close>

datatype py_error = KeyError | ZeroDivisionError | TypeError | PageError

section \<open>Script converter (playwright\_recorder/convert\_to\_script.py)\<close>

text \<open>
  A raw event is a JSON object. Its keys are the fields of the record below; a key the
  object lacks is \<open>None\<close>, so that \<open>event['k']\<close> on a missing key is the \<open>KeyError\<close>
  branch of the model and \<open>event.get('k', d)\<close> is the default. JSON numbers are
  exact rationals: the binary rounding of Python's floats is not modelled.
\<close>

record event =
  ev_type :: "string option"
  ev_timestamp :: "rat option"
  ev_selector :: "string option"
  ev_x :: "rat option"
  ev_y :: "rat option"
  ev_scrollY :: "rat option"
  ev_scrollX :: "rat option"
  ev_key :: "string option"

text \<open>
  An action is the dict the converter builds: \<open>type\<close> is always set, every other key is
  present (\<open>Some\<close>) only where the converter writes it. \<open>a_wait = None\<close> is an action
  with no \<open>wait\<close> key.
\<close>

record action =
  a_type :: string
  a_selector :: "string option"
  a_x :: "rat option"
  a_y :: "rat option"
  a_scrollY :: "rat option"
  a_scrollX :: "rat option"
  a_key :: "string option"
  a_wait :: "rat option"

definition empty_action :: "string \<Rightarrow> action" where
  "empty_action ty =
     \<lparr>a_type = ty, a_selector = None, a_x = None, a_y = None, a_scrollY = None,
      a_scrollX = None, a_key = None, a_wait = None\<rparr>"

text \<open>
  \<open>round(wait_time, 1)\<close>: rounding to one decimal place, a tie going to the even
  digit, as Python rounds an exact number.
\<close>

definition py_round1 :: "rat \<Rightarrow> rat" where
  "py_round1 x =
     (let y = x * 10; f = \<lfloor>y\<rfloor>; d = y - of_int f
      in of_int (if d < 1 / 2 then f
                 else if 1 / 2 < d then f + 1
                 else if even f then f else f + 1) / 10)"

text \<open>\<open>if wait_time > 0.1: action['wait'] = round(wait_time, 1)\<close>\<close>

definition add_wait :: "rat \<Rightarrow> action \<Rightarrow> action" where
  "add_wait wait_time a =
     (if 1 / 10 < wait_time then a\<lparr>a_wait := Some (py_round1 wait_time)\<rparr> else a)"

definition modifier_keys :: "string list" where
  "modifier_keys = [''Control'', ''Meta'', ''Shift'', ''Alt'']"

text \<open>
  One pass of the loop body on one event, with the loop variable \<open>last_time\<close>:
  \<open>Inr None\<close> when the event adds no action (and leaves \<open>last_time\<close> alone),
  \<open>Inr (Some (a, t))\<close> when it appends \<open>a\<close> and sets \<open>last_time = t\<close>.
\<close>

definition convert_event :: "event \<Rightarrow> rat \<Rightarrow> py_error + (action \<times> rat) option" where
  "convert_event e last_time =
     (case ev_type e of None \<Rightarrow> Inl KeyError | Some event_type \<Rightarrow>
     (case ev_timestamp e of None \<Rightarrow> Inl KeyError | Some timestamp \<Rightarrow>
      let wait_time = (if 0 < last_time then timestamp - last_time else 0) in
      if event_type = ''mousemove'' then Inr None
      else if event_type = ''click'' then
        (case ev_selector e of None \<Rightarrow> Inl KeyError | Some sel \<Rightarrow>
        (case ev_x e of None \<Rightarrow> Inl KeyError | Some x \<Rightarrow>
        (case ev_y e of None \<Rightarrow> Inl KeyError | Some y \<Rightarrow>
           Inr (Some (add_wait wait_time
                  ((empty_action ''click'')\<lparr>a_selector := Some sel, a_x := Some x, a_y := Some y\<rparr>),
                timestamp)))))
      else if event_type = ''scroll'' then
        (case ev_scrollY e of None \<Rightarrow> Inl KeyError | Some sy \<Rightarrow>
           Inr (Some (add_wait wait_time
                  ((empty_action ''scroll'')\<lparr>a_scrollY := Some sy,
                     a_scrollX := Some (case ev_scrollX e of None \<Rightarrow> 0 | Some sx \<Rightarrow> sx)\<rparr>),
                timestamp)))
      else if event_type = ''keypress'' then
        (case ev_key e of None \<Rightarrow> Inl KeyError | Some k \<Rightarrow>
           if k \<notin> set modifier_keys
           then Inr (Some (add_wait wait_time ((empty_action ''keypress'')\<lparr>a_key := Some k\<rparr>),
                           timestamp))
           else Inr None)
      else Inr None))"

fun convert_loop :: "event list \<Rightarrow> action list \<Rightarrow> rat \<Rightarrow> py_error + action list" where
  "convert_loop [] actions last_time = Inr actions"
| "convert_loop (e # es) actions last_time =
     (case convert_event e last_time of
        Inl err \<Rightarrow> Inl err
      | Inr None \<Rightarrow> convert_loop es actions last_time
      | Inr (Some (a, t)) \<Rightarrow> convert_loop es (actions @ [a]) t)"

text \<open>
  The action list of the script \<open>convert_recording_to_script\<close> writes: the loop starts
  with \<open>actions = []\<close> and \<open>last_time = 0\<close>.
\<close>

definition convert_recording_to_script :: "event list \<Rightarrow> py_error + action list" where
  "convert_recording_to_script events = convert_loop events [] 0"

text \<open>Events as the recorder's page script pushes them.\<close>

definition click_event :: "string \<Rightarrow> rat \<Rightarrow> rat \<Rightarrow> rat \<Rightarrow> event" where
  "click_event sel x y t =
     \<lparr>ev_type = Some ''click'', ev_timestamp = Some t, ev_selector = Some sel,
      ev_x = Some x, ev_y = Some y, ev_scrollY = None, ev_scrollX = None, ev_key = None\<rparr>"

definition mousemove_event :: "rat \<Rightarrow> rat \<Rightarrow> rat \<Rightarrow> event" where
  "mousemove_event x y t =
     \<lparr>ev_type = Some ''mousemove'', ev_timestamp = Some t, ev_selector = None,
      ev_x = Some x, ev_y = Some y, ev_scrollY = None, ev_scrollX = None, ev_key = None\<rparr>"

definition keypress_event :: "string \<Rightarrow> rat \<Rightarrow> event" where
  "keypress_event k t =
     \<lparr>ev_type = Some ''keypress'', ev_timestamp = Some t, ev_selector = None,
      ev_x = None, ev_y = None, ev_scrollY = None, ev_scrollX = None, ev_key = Some k\<rparr>"

definition click_action :: "string \<Rightarrow> rat \<Rightarrow> rat \<Rightarrow> rat option \<Rightarrow> action" where
  "click_action sel x y w =
     \<lparr>a_type = ''click'', a_selector = Some sel, a_x = Some x, a_y = Some y,
      a_scrollY = None, a_scrollX = None, a_key = None, a_wait = w\<rparr>"

definition keypress_action :: "string \<Rightarrow> rat option \<Rightarrow> action" where
  "keypress_action k w =
     \<lparr>a_type = ''keypress'', a_selector = None, a_x = None, a_y = None,
      a_scrollY = None, a_scrollX = None, a_key = Some k, a_wait = w\<rparr>"

text \<open>An event the converter drops: a mousemove, or a keypress of a bare modifier key.\<close>

definition dropped :: "event \<Rightarrow> bool" where
  "dropped e =
     (ev_type e = Some ''mousemove'' \<or>
      (ev_type e = Some ''keypress'' \<and> (\<exists>k \<in> set modifier_keys. ev_key e = Some k)))"

section \<open>Timed replayer (playwright\_recorder/replay\_session.py)\<close>

text \<open>
  The loop of \<open>SessionReplayer.replay\<close>. The clock is explicit: \<open>now\<close> is what
  \<open>time.time()\<close> returns at the top of the loop body, \<open>time.sleep(w)\<close> advances it by
  \<open>w\<close>, and executing an event advances it by \<open>cost e\<close> (what the page takes; an error
  of \<open>_execute_event\<close> is caught and printed, the loop goes on). \<open>event['timestamp']\<close>
  raises \<open>KeyError\<close> on a missing key and the division raises \<open>ZeroDivisionError\<close> at
  speed \<open>0\<close>; neither is caught, so the replay ends there.
\<close>

definition replay_wait_time :: "event \<Rightarrow> rat \<Rightarrow> rat \<Rightarrow> py_error + rat" where
  "replay_wait_time e speed elapsed =
     (case ev_timestamp e of None \<Rightarrow> Inl KeyError | Some timestamp \<Rightarrow>
      if speed = 0 then Inl ZeroDivisionError
      else let target_time = timestamp / speed in Inr (target_time - elapsed))"

text \<open>
  \<open>if wait_time > 0: time.sleep(wait_time)\<close>: the time slept, \<open>0\<close> when \<open>sleep\<close> is not
  called.
\<close>

definition slept :: "rat \<Rightarrow> rat" where
  "slept wait_time = (if 0 < wait_time then wait_time else 0)"

text \<open>
  One entry of the run's trace per executed event: the elapsed time read before it, the
  time slept, and the event handed to \<open>_execute_event\<close>.
\<close>

record replay_step =
  rs_elapsed :: rat
  rs_slept :: rat
  rs_event :: event

fun replay_loop ::
  "rat \<Rightarrow> (event \<Rightarrow> rat) \<Rightarrow> rat \<Rightarrow> rat \<Rightarrow> event list \<Rightarrow> py_error + replay_step list" where
  "replay_loop speed cost start_time now [] = Inr []"
| "replay_loop speed cost start_time now (e # es) =
     (let elapsed = now - start_time in
      case replay_wait_time e speed elapsed of
        Inl err \<Rightarrow> Inl err
      | Inr wait_time \<Rightarrow>
          (case replay_loop speed cost start_time (now + slept wait_time + cost e) es of
             Inl err \<Rightarrow> Inl err
           | Inr steps \<Rightarrow>
               Inr (\<lparr>rs_elapsed = elapsed, rs_slept = slept wait_time, rs_event = e\<rparr> # steps)))"

definition replay :: "rat \<Rightarrow> (event \<Rightarrow> rat) \<Rightarrow> rat \<Rightarrow> event list \<Rightarrow> py_error + replay_step list" where
  "replay speed cost start_time events = replay_loop speed cost start_time start_time events"

section \<open>JSON values\<close>

text \<open>
  What \<open>json.load\<close> returns and what \<open>page.evaluate\<close> hands back from the page: \<open>None\<close>,
  a bool, a number, a string, a list or a dict. A dict is its list of items; a key is
  looked up with \<open>map_of\<close>. Numbers in schemas and snapshots are integers.
\<close>

datatype jval =
    JNull
  | JBool bool
  | JNum int
  | JStr string
  | JList "jval list"
  | JObj "(string \<times> jval) list"

section \<open>Schema validation (state\_analyzer.py)\<close>

text \<open>\<open>needle in haystack\<close> on two Python strings: the substring test.\<close>

fun starts_with :: "string \<Rightarrow> string \<Rightarrow> bool" where
  "starts_with [] s = True"
| "starts_with (c # cs) [] = False"
| "starts_with (c # cs) (d # ds) = (c = d \<and> starts_with cs ds)"

fun str_contains :: "string \<Rightarrow> string \<Rightarrow> bool" where
  "str_contains needle [] = (needle = [])"
| "str_contains needle (c # cs) = (starts_with needle (c # cs) \<or> str_contains needle cs)"

text \<open>
  \<open>field in state\<close> for a string \<open>field\<close>: a key test on a dict, a substring test on a
  string, a membership test on a list, and a \<open>TypeError\<close> on \<open>None\<close>, a bool or a number.
\<close>

fun py_in :: "string \<Rightarrow> jval \<Rightarrow> py_error + bool" where
  "py_in field (JObj items) = Inr (field \<in> set (map fst items))"
| "py_in field (JStr s) = Inr (str_contains field s)"
| "py_in field (JList xs) = Inr (JStr field \<in> set xs)"
| "py_in field v = Inl TypeError"

definition required_fields :: "string list" where
  "required_fields = [''id'', ''name'', ''description'', ''color_theme'']"

text \<open>
  The two nested \<open>for\<close> loops: \<open>Inr True\<close> when no \<open>field not in state\<close> test fires,
  \<open>Inr False\<close> at the first that does (\<open>return False\<close>), \<open>Inl\<close> when the test raises.
\<close>

fun check_fields :: "jval \<Rightarrow> string list \<Rightarrow> py_error + bool" where
  "check_fields state [] = Inr True"
| "check_fields state (field # rest) =
     (case py_in field state of
        Inl err \<Rightarrow> Inl err
      | Inr present \<Rightarrow> if \<not> present then Inr False else check_fields state rest)"

fun check_states :: "jval list \<Rightarrow> py_error + bool" where
  "check_states [] = Inr True"
| "check_states (state # states) =
     (case check_fields state required_fields of
        Inl err \<Rightarrow> Inl err
      | Inr ok \<Rightarrow> if \<not> ok then Inr False else check_states states)"

text \<open>
  \<open>StateDetectionAnalyzer._validate_states_json\<close>. The body is inside
  \<open>try: ... except Exception: return False\<close>, so a raised error is \<open>False\<close>.
\<close>

definition validate_states_json :: "jval \<Rightarrow> bool" where
  "validate_states_json data =
     (case data of
        JObj obj \<Rightarrow>
          (case (map_of obj ''metadata'', map_of obj ''states'') of
             (Some metadata, Some states) \<Rightarrow>
               (case metadata of
                  JObj meta \<Rightarrow>
                    if ''total_states'' \<notin> set (map fst meta) then False
                    else (case states of
                            JList sts \<Rightarrow>
                              if length sts = 0 then False
                              else (case check_states sts of Inl err \<Rightarrow> False | Inr ok \<Rightarrow> ok)
                          | _ \<Rightarrow> False)
                | _ \<Rightarrow> False)
           | _ \<Rightarrow> False)
      | _ \<Rightarrow> False)"

text \<open>
  The use in \<open>detect_states\<close>: \<open>if not self._validate_states_json(states_data): raise
  ValueError(...)\<close>, before the schema is returned to any caller.
\<close>

datatype schema_error = ValueError

definition checked_schema :: "jval \<Rightarrow> schema_error + jval" where
  "checked_schema states_data =
     (if \<not> validate_states_json states_data then Inl ValueError else Inr states_data)"

text \<open>The \<open>id\<close> values of a schema's states, in schema order (states without one left out).\<close>

definition schema_ids :: "jval \<Rightarrow> jval list" where
  "schema_ids data =
     (case data of
        JObj obj \<Rightarrow>
          (case map_of obj ''states'' of
             Some (JList sts) \<Rightarrow>
               concat (map (\<lambda>st. case st of
                                   JObj items \<Rightarrow> (case map_of items ''id'' of Some i \<Rightarrow> [i] | None \<Rightarrow> [])
                                 | _ \<Rightarrow> []) sts)
           | _ \<Rightarrow> [])
      | _ \<Rightarrow> [])"

definition state_obj :: "int \<Rightarrow> string \<Rightarrow> jval" where
  "state_obj i name =
     JObj [(''id'', JNum i), (''name'', JStr name), (''description'', JStr []),
           (''color_theme'', JObj [])]"

definition schema_obj :: "jval list \<Rightarrow> jval" where
  "schema_obj sts =
     JObj [(''metadata'', JObj [(''total_states'', JNum (int (length sts)))]),
           (''states'', JList sts)]"

section \<open>State schema\<close>

text \<open>
  A state definition of \<open>states_schema.json\<close>, with the keys the detectors read. The
  schema is the one \<open>StateDetectionAnalyzer\<close> returns, so it passed
  \<open>_validate_states_json\<close> and every state has its \<open>id\<close> and \<open>name\<close>; the other keys are
  not validated. \<open>detection_condition\<close> is \<open>None\<close> when the state has no such key. An entry of
  \<open>has_class\<close> or \<open>text_content\<close> is a dict (\<open>DictItem selector value\<close>, a key it lacks
  read as \<open>''\<close> the way \<open>item.get(k, '')\<close> does) or something else (\<open>OtherItem\<close>). A state
  without \<open>dom_detection\<close> has four empty lists.
\<close>

datatype dom_item = DictItem string string | OtherItem

record dom_detection =
  visible_elements :: "string list"
  hidden_elements :: "string list"
  has_class :: "dom_item list"
  text_content :: "dom_item list"

record state_def =
  st_id :: int
  st_name :: string
  detection_condition :: "string option"
  dom :: dom_detection


section \<open>Hybrid detector of the panel (panel\_generator.py, generated getCurrentState)\<close>

text \<open>
  \<open>generate_tracking_js\<close> writes, for each state in schema order, two \<open>try\<close> blocks into
  the body of \<open>getCurrentState\<close>: the first holds
  \<open>if (<condition>) return <id>;\<close> when the condition is not empty, the second holds
  \<open>if (<check> && ... && <check>) return <id>;\<close> when the state has DOM checks. The
  model keeps that structure: a block per state, with the condition and the checks the
  generator emitted.
\<close>

datatype dom_check =
    CheckVisible string
  | CheckHidden string
  | CheckClass string string
  | CheckText string string

record js_block =
  blk_id :: int
  blk_condition :: "string option"
  blk_checks :: "dom_check list"

fun item_checks :: "(string \<Rightarrow> string \<Rightarrow> dom_check) \<Rightarrow> dom_item list \<Rightarrow> dom_check list" where
  "item_checks mk [] = []"
| "item_checks mk (DictItem selector v # items) = mk selector v # item_checks mk items"
| "item_checks mk (OtherItem # items) = item_checks mk items"

definition dom_checks :: "dom_detection \<Rightarrow> dom_check list" where
  "dom_checks d =
     map CheckVisible (visible_elements d) @ map CheckHidden (hidden_elements d) @
     item_checks CheckClass (has_class d) @ item_checks CheckText (text_content d)"

definition generate_block :: "state_def \<Rightarrow> js_block" where
  "generate_block state =
     \<lparr>blk_id = st_id state,
      blk_condition =
        (case detection_condition state of
           None \<Rightarrow> None
         | Some condition \<Rightarrow> if condition = [] then None else Some condition),
      blk_checks = dom_checks (dom state)\<rparr>"

text \<open>
  The page the generated function runs in. \<open>eval_condition c\<close> is the outcome of the
  statements \<open>const v = findVariable('v'); ... if (c)\<close> there: \<open>None\<close> when they throw,
  \<open>Some b\<close> when the condition evaluates, to a value that is truthy (\<open>b\<close>) or not. The
  four helpers answer \<open>Some b\<close>, or \<open>None\<close> when they throw (a selector that
  \<open>querySelector\<close> refuses).
\<close>

record page_ctx =
  eval_condition :: "string \<Rightarrow> bool option"
  checkVisible :: "string \<Rightarrow> bool option"
  checkHidden :: "string \<Rightarrow> bool option"
  checkClass :: "string \<Rightarrow> string \<Rightarrow> bool option"
  checkText :: "string \<Rightarrow> string \<Rightarrow> bool option"

fun run_check :: "page_ctx \<Rightarrow> dom_check \<Rightarrow> bool option" where
  "run_check p (CheckVisible selector) = checkVisible p selector"
| "run_check p (CheckHidden selector) = checkHidden p selector"
| "run_check p (CheckClass selector c) = checkClass p selector c"
| "run_check p (CheckText selector t) = checkText p selector t"

text \<open>\<open>c1 && c2 && ...\<close>, left to right, stopping at the first false or throwing check.\<close>

fun run_checks :: "page_ctx \<Rightarrow> dom_check list \<Rightarrow> bool option" where
  "run_checks p [] = Some True"
| "run_checks p (c # cs) =
     (case run_check p c of
        None \<Rightarrow> None
      | Some b \<Rightarrow> if b then run_checks p cs else Some False)"

text \<open>The first \<open>try\<close> block returns the state's id.\<close>

definition var_match :: "page_ctx \<Rightarrow> js_block \<Rightarrow> bool" where
  "var_match p b =
     (case blk_condition b of None \<Rightarrow> False | Some c \<Rightarrow> eval_condition p c = Some True)"

text \<open>The second \<open>try\<close> block returns the state's id.\<close>

definition dom_match :: "page_ctx \<Rightarrow> js_block \<Rightarrow> bool" where
  "dom_match p b = (blk_checks b \<noteq> [] \<and> run_checks p (blk_checks b) = Some True)"

text \<open>
  The strategies a run evaluates, in order: \<open>VarStrategy i\<close> when the condition of state
  \<open>i\<close> is evaluated, \<open>DomStrategy i\<close> when its DOM checks are.
\<close>

datatype strategy = VarStrategy int | DomStrategy int

definition var_log :: "js_block \<Rightarrow> strategy list" where
  "var_log b = (if blk_condition b = None then [] else [VarStrategy (blk_id b)])"

definition dom_log :: "js_block \<Rightarrow> strategy list" where
  "dom_log b = (if blk_checks b = [] then [] else [DomStrategy (blk_id b)])"



text \<open>A state matches when one of its two blocks returns its id.\<close>

definition state_matches :: "page_ctx \<Rightarrow> state_def \<Rightarrow> bool" where
  "state_matches p state = (var_match p (generate_block state) \<or> dom_match p (generate_block state))"

section \<open>Recorder: detection and snapshots (playwright\_recorder/record\_session.py)\<close>

text \<open>\<open>INSTAGRAM_STATE\<close> of instagram\_config.py.\<close>

definition config_variables :: "string list" where
  "config_variables =
     [''stage'', ''notificationCount'', ''tapCount'', ''notificationSpeed'', ''escapeAttempts'',
      ''rewardStreak'', ''totalRewards'', ''isHellMode'', ''urgentTimers'']"

definition content_id :: string where
  "content_id = ''contentArea''"

definition counter_id :: string where
  "counter_id = ''counter''"

text \<open>
  The page the recorder polls: whether it is gone (every \<open>page.evaluate\<close> then raises),
  its defined global variables with their values, the \<open>style.display\<close> of the element
  \<open>floodOverlay\<close> and the \<open>innerHTML\<close> of the content element (\<open>None\<close> when the
  element does not exist).
\<close>

record rec_page =
  pg_closed :: bool
  pg_globals :: "(string \<times> jval) list"
  pg_overlay_display :: "string option"
  pg_content :: "string option"

text \<open>\<open>page.evaluate('typeof v !== "undefined" ? v : <default>')\<close>\<close>

definition evaluate_or :: "rec_page \<Rightarrow> string \<Rightarrow> jval \<Rightarrow> py_error + jval" where
  "evaluate_or p v dflt =
     (if pg_closed p then Inl PageError
      else Inr (case map_of (pg_globals p) v of None \<Rightarrow> dflt | Some x \<Rightarrow> x))"

text \<open>
  \<open>page.evaluate('document.getElementById("floodOverlay") &&
  document.getElementById("floodOverlay").style.display === "flex"')\<close>
\<close>

definition evaluate_overlay :: "rec_page \<Rightarrow> py_error + jval" where
  "evaluate_overlay p =
     (if pg_closed p then Inl PageError
      else Inr (case pg_overlay_display p of None \<Rightarrow> JNull | Some d \<Rightarrow> JBool (d = ''flex'')))"

text \<open>The content element's \<open>innerHTML\<close>, or \<open>""\<close> without the element.\<close>

definition evaluate_content :: "rec_page \<Rightarrow> py_error + string" where
  "evaluate_content p =
     (if pg_closed p then Inl PageError
      else Inr (case pg_content p of None \<Rightarrow> [] | Some html \<Rightarrow> html))"

text \<open>Python's truth value, \<open>v >= k\<close> and \<open>v == k\<close> for an integer \<open>k\<close> (a bool counts as 0 or 1).\<close>

fun py_truthy :: "jval \<Rightarrow> bool" where
  "py_truthy JNull = False"
| "py_truthy (JBool b) = b"
| "py_truthy (JNum n) = (n \<noteq> 0)"
| "py_truthy (JStr s) = (s \<noteq> [])"
| "py_truthy (JList xs) = (xs \<noteq> [])"
| "py_truthy (JObj items) = (items \<noteq> [])"

fun py_ge_int :: "jval \<Rightarrow> int \<Rightarrow> py_error + bool" where
  "py_ge_int (JNum n) k = Inr (k \<le> n)"
| "py_ge_int (JBool b) k = Inr (k \<le> (if b then 1 else 0))"
| "py_ge_int v k = Inl TypeError"

fun py_eq_int :: "jval \<Rightarrow> int \<Rightarrow> bool" where
  "py_eq_int (JNum n) k = (n = k)"
| "py_eq_int (JBool b) k = ((if b then 1 else 0) = k)"
| "py_eq_int v k = False"

text \<open>
  The inner \<open>try\<close> of \<open>_detect_current_state\<close> for one state id: \<open>Inr True\<close> when it
  returns the id, \<open>Inr False\<close> when it falls through, \<open>Inl\<close> when it raises.
\<close>

definition state_detected :: "rec_page \<Rightarrow> int \<Rightarrow> py_error + bool" where
  "state_detected p state_id =
     (if state_id = 5 then
        (case evaluate_or p ''notificationCount'' (JNum 0) of Inl e \<Rightarrow> Inl e | Inr notif_count \<Rightarrow>
        (case evaluate_overlay p of Inl e \<Rightarrow> Inl e | Inr overlay_visible \<Rightarrow>
        (case py_ge_int notif_count 150 of Inl e \<Rightarrow> Inl e | Inr ge \<Rightarrow>
           Inr (ge \<and> py_truthy overlay_visible))))
      else if state_id = 4 then
        (case evaluate_or p ''stage'' (JNum (- 1)) of Inl e \<Rightarrow> Inl e | Inr stage \<Rightarrow>
        (case evaluate_or p ''isHellMode'' (JBool False) of Inl e \<Rightarrow> Inl e | Inr is_hell \<Rightarrow>
           Inr (py_eq_int stage 4 \<and> py_truthy is_hell)))
      else
        (case evaluate_or p ''stage'' (JNum (- 1)) of Inl e \<Rightarrow> Inl e | Inr stage \<Rightarrow>
           Inr (py_eq_int stage state_id)))"

text \<open>
  The \<open>for\<close> loop: \<open>state['detection_condition']\<close> raises outside the inner \<open>try\<close>; an
  error inside it is \<open>continue\<close>; after the last state \<open>return -1\<close>.
\<close>

fun detect_loop :: "rec_page \<Rightarrow> state_def list \<Rightarrow> py_error + int" where
  "detect_loop p [] = Inr (- 1)"
| "detect_loop p (state # states) =
     (case detection_condition state of
        None \<Rightarrow> Inl KeyError
      | Some condition \<Rightarrow>
          (case state_detected p (st_id state) of
             Inr True \<Rightarrow> Inr (st_id state)
           | _ \<Rightarrow> detect_loop p states))"

text \<open>
  \<open>SessionRecorder._detect_current_state\<close>. The first argument is \<open>STATES_SCHEMA\<close>:
  the states of the schema file, \<open>None\<close> when no schema was loaded. The outer
  \<open>except: return -1\<close> turns any error into \<open>-1\<close>.
\<close>

definition detect_current_state :: "state_def list option \<Rightarrow> rec_page \<Rightarrow> int" where
  "detect_current_state states_schema p =
     (case states_schema of
        None \<Rightarrow> - 1
      | Some states \<Rightarrow> (case detect_loop p states of Inl e \<Rightarrow> - 1 | Inr r \<Rightarrow> r))"

text \<open>
  A snapshot: the captured variables in capture order, the DOM fragment (\<open>None\<close> when
  the key \<open>dom\<close> is missing) and the capture time.
\<close>

record snapshot =
  snap_vars :: "(string \<times> jval) list"
  snap_dom :: "string option"
  snap_timestamp :: rat

record recorder =
  capture_snapshots :: bool
  snapshots_available :: bool
  states_schema :: "state_def list option"
  start_time :: "rat option"
  snapshots :: "(int \<times> snapshot) list"
  last_stage :: int

text \<open>\<open>SessionRecorder.__init__\<close>: no snapshot yet, \<open>last_stage = -1\<close>.\<close>

definition new_recorder :: "bool \<Rightarrow> bool \<Rightarrow> state_def list option \<Rightarrow> rat option \<Rightarrow> recorder" where
  "new_recorder capture available sch st =
     \<lparr>capture_snapshots = capture, snapshots_available = available, states_schema = sch,
      start_time = st, snapshots = [], last_stage = - 1\<rparr>"

fun capture_vars :: "rec_page \<Rightarrow> string list \<Rightarrow> (string \<times> jval) list" where
  "capture_vars p [] = []"
| "capture_vars p (var_name # rest) =
     (case evaluate_or p var_name JNull of
        Inl e \<Rightarrow> capture_vars p rest
      | Inr JNull \<Rightarrow> capture_vars p rest
      | Inr v \<Rightarrow> (var_name, v) # capture_vars p rest)"

text \<open>\<open>SessionRecorder._capture_snapshot\<close>, at clock reading \<open>now\<close>.\<close>

definition capture_snapshot :: "recorder \<Rightarrow> rec_page \<Rightarrow> rat \<Rightarrow> snapshot option" where
  "capture_snapshot r p now =
     (if \<not> capture_snapshots r \<or> \<not> snapshots_available r then None
      else Some \<lparr>snap_vars = capture_vars p config_variables,
                 snap_dom = (case evaluate_content p of Inl e \<Rightarrow> None | Inr html \<Rightarrow> Some html),
                 snap_timestamp =
                   (case start_time r of
                      None \<Rightarrow> 0
                    | Some st \<Rightarrow> if st \<noteq> 0 then now - st else 0)\<rparr>)"

text \<open>\<open>d[k] = v\<close> on a dict kept as its list of items: an existing key keeps its place.\<close>

fun dict_set :: "'k \<Rightarrow> 'v \<Rightarrow> ('k \<times> 'v) list \<Rightarrow> ('k \<times> 'v) list" where
  "dict_set k v [] = [(k, v)]"
| "dict_set k v ((k', v') # items) =
     (if k' = k then (k, v) # items else (k', v') # dict_set k v items)"

text \<open>
  The state \<open>_check_stage_change\<close> compares with \<open>last_stage\<close>: what
  \<open>_detect_current_state\<close> returns when a schema is loaded, else the page's \<open>stage\<close>
  variable (\<open>-1\<close> when undefined).
\<close>

definition current_state_of :: "recorder \<Rightarrow> rec_page \<Rightarrow> py_error + jval" where
  "current_state_of r p =
     (case states_schema r of
        Some states \<Rightarrow> Inr (JNum (detect_current_state (states_schema r) p))
      | None \<Rightarrow> evaluate_or p ''stage'' (JNum (- 1)))"

text \<open>
  \<open>current_state != self.last_stage and current_state >= 0\<close>: \<open>Inr (Some n)\<close> when it
  holds, for the number \<open>n\<close> the state is as a dict key; a value Python cannot compare
  with \<open>0\<close> raises.
\<close>

fun changed_stage :: "jval \<Rightarrow> int \<Rightarrow> py_error + int option" where
  "changed_stage (JNum n) prev = Inr (if n \<noteq> prev \<and> 0 \<le> n then Some n else None)"
| "changed_stage (JBool b) prev =
     (let n = (if b then 1 else 0) in Inr (if n \<noteq> prev \<and> 0 \<le> n then Some n else None))"
| "changed_stage v prev = Inl TypeError"

text \<open>
  \<open>SessionRecorder._check_stage_change\<close>, at clock reading \<open>now\<close>. Any error inside is
  swallowed by \<open>except Exception: pass\<close>, leaving the recorder as it was at that point.
  Between storing the snapshot and setting \<open>last_stage\<close> the method only reads the
  state's name and prints it.
\<close>

definition check_stage_change :: "recorder \<Rightarrow> rec_page \<Rightarrow> rat \<Rightarrow> recorder" where
  "check_stage_change r p now =
     (if \<not> capture_snapshots r \<or> \<not> snapshots_available r then r
      else
        (case current_state_of r p of
           Inl e \<Rightarrow> r
         | Inr current \<Rightarrow>
             (case changed_stage current (last_stage r) of
                Inl e \<Rightarrow> r
              | Inr None \<Rightarrow> r
              | Inr (Some current_state) \<Rightarrow>
                  (case capture_snapshot r p now of
                     None \<Rightarrow> r\<lparr>last_stage := current_state\<rparr>
                   | Some snap \<Rightarrow>
                       r\<lparr>snapshots := dict_set current_state snap (snapshots r),
                         last_stage := current_state\<rparr>))))"

text \<open>
  The polling loop of \<open>record\<close>, as far as snapshots go: one \<open>_check_stage_change\<close> per
  tick, each tick with the page as it is then and the clock reading.
\<close>

fun poll :: "recorder \<Rightarrow> (rec_page \<times> rat) list \<Rightarrow> recorder" where
  "poll r [] = r"
| "poll r ((p, now) # ticks) = poll (check_stage_change r p now) ticks"


record manifest =
  stages_captured :: nat
  stage_numbers :: "int list"

definition save_metadata :: "recorder \<Rightarrow> manifest option" where
  "save_metadata r =
     (if snapshots r = [] then None
      else Some \<lparr>stages_captured = length (snapshots r),
                 stage_numbers = sort (filter (\<lambda>s. 0 \<le> s) (map fst (snapshots r)))\<rparr>)"



text \<open>
  The states whose DOM checks a run of \<open>getCurrentState\<close> gets to: every state before
  it matched by neither strategy, its own condition did not return, and it has checks.
\<close>

definition dom_reached :: "page_ctx \<Rightarrow> state_def list \<Rightarrow> int \<Rightarrow> bool" where
  "dom_reached p sts i \<longleftrightarrow>
     (\<exists>pre s post. sts = pre @ s # post \<and> st_id s = i \<and>
        (\<forall>x \<in> set pre. \<not> state_matches p x) \<and>
        \<not> var_match p (generate_block s) \<and> blk_checks (generate_block s) \<noteq> [])"

section \<open>Example schemas and pages\<close>




text \<open>A page of the recorder whose only global is \<open>stage\<close>, and one with no global at all.\<close>

definition stage_page :: "int \<Rightarrow> string \<Rightarrow> rec_page" where
  "stage_page n html =
     \<lparr>pg_closed = False, pg_globals = [(''stage'', JNum n)], pg_overlay_display = None,
      pg_content = Some html\<rparr>"


text \<open>The snapshot captured on \<open>stage_page n html\<close>, \<open>t\<close> seconds into the recording.\<close>

definition stage_snapshot :: "int \<Rightarrow> string \<Rightarrow> rat \<Rightarrow> snapshot" where
  "stage_snapshot n html t =
     \<lparr>snap_vars = [(''stage'', JNum n)], snap_dom = Some html, snap_timestamp = t\<rparr>"

text \<open>
  A recording without schema file, started at clock reading 100, that enters stage 1,
  then stage 2, then stage 1 again, polled once in each.
\<close>

definition demo_ticks :: "(rec_page \<times> rat) list" where
  "demo_ticks =
     [(stage_page 1 ''<p>first</p>'', 101), (stage_page 2 ''<p>second</p>'', 102),
      (stage_page 1 ''<p>third</p>'', 103)]"

section \<open>Restore of a snapshot (playwright\_recorder/test\_stage.py)\<close>

abbreviation squote :: char where "squote \<equiv> CHR 0x27"
abbreviation backslash :: char where "backslash \<equiv> CHR 0x5C"
abbreviation newline :: char where "newline \<equiv> CHR 0x0A"
abbreviation carriage_return :: char where "carriage_return \<equiv> CHR 0x0D"

text \<open>The decimal text of an integer, as \<open>str\<close> and an f-string write it.\<close>

fun show_nat :: "nat \<Rightarrow> string" where
  "show_nat n = (if n < 10 then [''0123456789'' ! n]
                 else show_nat (n div 10) @ [''0123456789'' ! (n mod 10)])"

declare show_nat.simps [simp del]

definition show_int :: "int \<Rightarrow> string" where
  "show_int i = (if i < 0 then CHR ''-'' # show_nat (nat (- i)) else show_nat (nat i))"

text \<open>
  \<open>json.dumps\<close> and \<open>repr\<close> belong to Python's standard library, not to this
  repository: the text they give for a value is a parameter of the model.
\<close>

record pylib =
  json_dumps :: "jval \<Rightarrow> string"
  py_repr :: "jval \<Rightarrow> string"

text \<open>
  \<open>f"{value}"\<close>: a string as it is, a bool as \<open>True\<close> or \<open>False\<close>, a number in decimal,
  \<open>None\<close>, and the \<open>repr\<close> of a list or dict.
\<close>

fun py_format :: "pylib \<Rightarrow> jval \<Rightarrow> string" where
  "py_format lib (JStr s) = s"
| "py_format lib (JBool b) = (if b then ''True'' else ''False'')"
| "py_format lib (JNum n) = show_int n"
| "py_format lib JNull = ''None''"
| "py_format lib v = py_repr lib v"

text \<open>
  The statement \<open>restore_state\<close> appends for one captured variable, by the type of its
  value, in the order of the \<open>isinstance\<close> tests.
\<close>

fun restore_assignment :: "pylib \<Rightarrow> string \<Rightarrow> jval \<Rightarrow> string" where
  "restore_assignment lib var_name (JStr v) = var_name @ '' = '' @ [squote] @ v @ [squote] @ '';''"
| "restore_assignment lib var_name (JBool b) =
     var_name @ '' = '' @ (if b then ''true'' else ''false'') @ '';''"
| "restore_assignment lib var_name (JNum n) = var_name @ '' = '' @ show_int n @ '';''"
| "restore_assignment lib var_name (JList xs) = var_name @ '' = '' @ json_dumps lib (JList xs) @ '';''"
| "restore_assignment lib var_name v = var_name @ '' = '' @ json_dumps lib v @ '';''"

fun restore_assignments :: "pylib \<Rightarrow> string list \<Rightarrow> (string \<times> jval) list \<Rightarrow> string list" where
  "restore_assignments lib [] vars = []"
| "restore_assignments lib (var_name # rest) vars =
     (case map_of vars var_name of
        None \<Rightarrow> restore_assignments lib rest vars
      | Some v \<Rightarrow> restore_assignment lib var_name v # restore_assignments lib rest vars)"

text \<open>\<open>s.replace(old, new)\<close> for a one-character \<open>old\<close>.\<close>

definition replace_char :: "char \<Rightarrow> string \<Rightarrow> string \<Rightarrow> string" where
  "replace_char old new s = concat (map (\<lambda>c. if c = old then new else [c]) s)"

text \<open>
  \<open>snapshot['dom'].replace('\\', '\\\\').replace("'", "\\'").replace('\n', '\\n')\<close>
\<close>

definition escape_dom :: "string \<Rightarrow> string" where
  "escape_dom html =
     replace_char newline [backslash, CHR ''n'']
       (replace_char squote [backslash, squote]
          (replace_char backslash [backslash, backslash] html))"

definition restore_dom :: "string \<Rightarrow> string" where
  "restore_dom html =
     ''document.getElementById('' @ [squote] @ content_id @ [squote] @ '').innerHTML = '' @
     [squote] @ escape_dom html @ [squote] @ '';''"

definition restore_counter :: "pylib \<Rightarrow> jval \<Rightarrow> string" where
  "restore_counter lib count =
     ''document.getElementById('' @ [squote] @ counter_id @ [squote] @ '').textContent = '' @
     py_format lib count @ '';''"

text \<open>The list \<open>restore_script\<close> and \<open>'\n'.join(restore_script)\<close>.\<close>

definition restore_script :: "pylib \<Rightarrow> snapshot \<Rightarrow> string list" where
  "restore_script lib snap =
     restore_assignments lib config_variables (snap_vars snap) @
     (case snap_dom snap of None \<Rightarrow> [] | Some html \<Rightarrow> [restore_dom html]) @
     (case map_of (snap_vars snap) ''notificationCount'' of
        None \<Rightarrow> []
      | Some count \<Rightarrow> [restore_counter lib count])"

fun join_lines :: "string list \<Rightarrow> string" where
  "join_lines [] = []"
| "join_lines [l] = l"
| "join_lines (l # ls) = l @ [newline] @ join_lines ls"

definition full_script :: "pylib \<Rightarrow> snapshot \<Rightarrow> string" where
  "full_script lib snap = join_lines (restore_script lib snap)"

section \<open>The page's evaluation of a restore script\<close>

text \<open>
  \<open>page.evaluate(full_script)\<close> hands the text to the page's JavaScript engine. The model
  covers the fragment of JavaScript that restore scripts are written in: statements
  \<open>target = expression;\<close> whose target is a variable or
  \<open>document.getElementById('id').innerHTML\<close> (or \<open>.textContent\<close>), and whose expression
  is a \<open>+\<close> chain of single-quoted string literals, integers and identifiers. A text
  outside the fragment is \<open>OutsideFragment\<close>: the model says nothing about it. A string
  literal that does not end on its line is a \<open>SyntaxError\<close>, and then the engine runs no
  statement of the script at all.
\<close>

datatype js_fault = SyntaxError | ReferenceError | NullTypeError | OutsideFragment

datatype token = TIdent string | TStr string | TNum int | TPunct char

datatype lex_state =
  Start | InIdent string | InMinus | InNum bool nat | InStr string | InEsc string

definition ident_start :: "char \<Rightarrow> bool" where
  "ident_start c \<longleftrightarrow> c \<in> set ''abcdefghijklmnopqrstuvwxyzABCDEFGHIJKLMNOPQRSTUVWXYZ_$''"

definition is_digit :: "char \<Rightarrow> bool" where
  "is_digit c \<longleftrightarrow> c \<in> set ''0123456789''"

definition digit_val :: "char \<Rightarrow> nat" where
  "digit_val c = length (takeWhile (\<lambda>d. d \<noteq> c) ''0123456789'')"

definition is_space :: "char \<Rightarrow> bool" where
  "is_space c \<longleftrightarrow> c = CHR '' '' \<or> c = newline \<or> c = carriage_return \<or> c = CHR 0x09"

definition is_punct :: "char \<Rightarrow> bool" where
  "is_punct c \<longleftrightarrow> c \<in> set ''=;+.()''"

text \<open>A character met between tokens.\<close>

definition start_char :: "char \<Rightarrow> js_fault + token list \<times> lex_state" where
  "start_char c =
     (if is_space c then Inr ([], Start)
      else if c = squote then Inr ([], InStr [])
      else if ident_start c then Inr ([], InIdent [c])
      else if is_digit c then Inr ([], InNum False (digit_val c))
      else if c = CHR ''-'' then Inr ([], InMinus)
      else if is_punct c then Inr ([TPunct c], Start)
      else Inl OutsideFragment)"

text \<open>
  The character after a backslash in a string literal: what it adds to the string. A
  backslash before a line end continues the line; hexadecimal, Unicode and octal
  escapes are outside the fragment.
\<close>

definition escaped :: "char \<Rightarrow> js_fault + string" where
  "escaped c =
     (if c = CHR ''n'' then Inr [newline]
      else if c = CHR ''r'' then Inr [carriage_return]
      else if c = CHR ''t'' then Inr [CHR 0x09]
      else if c = CHR ''b'' then Inr [CHR 0x08]
      else if c = CHR ''f'' then Inr [CHR 0x0C]
      else if c = CHR ''v'' then Inr [CHR 0x0B]
      else if c = newline then Inr []
      else if c = CHR ''x'' \<or> c = CHR ''u'' \<or> c = carriage_return \<or> is_digit c
        then Inl OutsideFragment
      else Inr [c])"

fun lex_step :: "lex_state \<Rightarrow> char \<Rightarrow> js_fault + token list \<times> lex_state" where
  "lex_step Start c = start_char c"
| "lex_step (InIdent name) c =
     (if ident_start c \<or> is_digit c then Inr ([], InIdent (name @ [c]))
      else (case start_char c of
              Inl e \<Rightarrow> Inl e
            | Inr (toks, st) \<Rightarrow> Inr (TIdent name # toks, st)))"
| "lex_step InMinus c =
     (if is_digit c then Inr ([], InNum True (digit_val c)) else Inl OutsideFragment)"
| "lex_step (InNum neg n) c =
     (if is_digit c then Inr ([], InNum neg (10 * n + digit_val c))
      else if ident_start c then Inl OutsideFragment
      else (case start_char c of
              Inl e \<Rightarrow> Inl e
            | Inr (toks, st) \<Rightarrow> Inr (TNum (if neg then - int n else int n) # toks, st)))"
| "lex_step (InStr s) c =
     (if c = squote then Inr ([TStr s], Start)
      else if c = backslash then Inr ([], InEsc s)
      else if c = newline \<or> c = carriage_return then Inl SyntaxError
      else Inr ([], InStr (s @ [c])))"
| "lex_step (InEsc s) c =
     (case escaped c of Inl e \<Rightarrow> Inl e | Inr added \<Rightarrow> Inr ([], InStr (s @ added)))"

fun lex_end :: "lex_state \<Rightarrow> js_fault + token list" where
  "lex_end Start = Inr []"
| "lex_end (InIdent name) = Inr [TIdent name]"
| "lex_end InMinus = Inl OutsideFragment"
| "lex_end (InNum neg n) = Inr [TNum (if neg then - int n else int n)]"
| "lex_end (InStr s) = Inl SyntaxError"
| "lex_end (InEsc s) = Inl SyntaxError"

fun lex_from :: "lex_state \<Rightarrow> string \<Rightarrow> js_fault + token list" where
  "lex_from st [] = lex_end st"
| "lex_from st (c # cs) =
     (case lex_step st c of
        Inl e \<Rightarrow> Inl e
      | Inr (toks, st') \<Rightarrow>
          (case lex_from st' cs of Inl e \<Rightarrow> Inl e | Inr later \<Rightarrow> Inr (toks @ later)))"

definition lex :: "string \<Rightarrow> js_fault + token list" where
  "lex src = lex_from Start src"

datatype atom = AStr string | ANum int | AVar string

datatype target = VarTarget string | PropTarget string string

text \<open>The token lists of the statements: the tokens up to each \<open>;\<close>.\<close>

fun split_statements :: "token list \<Rightarrow> token list \<Rightarrow> token list list \<times> token list" where
  "split_statements cur [] = ([], cur)"
| "split_statements cur (t # ts) =
     (if t = TPunct (CHR '';'') then
        (case split_statements [] ts of (stmts, rest) \<Rightarrow> (cur # stmts, rest))
      else split_statements (cur @ [t]) ts)"

fun parse_atom :: "token \<Rightarrow> js_fault + atom" where
  "parse_atom (TStr s) = Inr (AStr s)"
| "parse_atom (TNum n) = Inr (ANum n)"
| "parse_atom (TIdent x) = Inr (AVar x)"
| "parse_atom (TPunct c) = Inl OutsideFragment"

text \<open>An expression: operands with \<open>+\<close> between them.\<close>

fun parse_atoms :: "token list \<Rightarrow> js_fault + atom list" where
  "parse_atoms [] = Inl OutsideFragment"
| "parse_atoms [t] = (case parse_atom t of Inl e \<Rightarrow> Inl e | Inr a \<Rightarrow> Inr [a])"
| "parse_atoms (t # p # ts) =
     (if p \<noteq> TPunct (CHR ''+'') then Inl OutsideFragment
      else (case parse_atom t of
              Inl e \<Rightarrow> Inl e
            | Inr a \<Rightarrow> (case parse_atoms ts of Inl e \<Rightarrow> Inl e | Inr atoms \<Rightarrow> Inr (a # atoms))))"

text \<open>
  The target of an assignment: the tokens before the \<open>=\<close>, a variable name or
  \<open>document.getElementById('id').property\<close>.
\<close>

definition parse_target :: "token list \<Rightarrow> js_fault + target" where
  "parse_target ts =
     (case ts of
        [TIdent x] \<Rightarrow> if x = ''document'' then Inl OutsideFragment else Inr (VarTarget x)
      | [d, p1, g, p2, TStr el, p3, p4, TIdent prop] \<Rightarrow>
          if [d, p1, g, p2] = [TIdent ''document'', TPunct (CHR ''.''), TIdent ''getElementById'',
                               TPunct (CHR ''('')] \<and>
             [p3, p4] = [TPunct (CHR '')''), TPunct (CHR ''.'')]
          then Inr (PropTarget el prop)
          else Inl OutsideFragment
      | _ \<Rightarrow> Inl OutsideFragment)"

definition parse_statement :: "token list \<Rightarrow> js_fault + target \<times> atom list" where
  "parse_statement ts =
     (let lhs = takeWhile (\<lambda>t. t \<noteq> TPunct (CHR ''='')) ts;
          rest = dropWhile (\<lambda>t. t \<noteq> TPunct (CHR ''='')) ts
      in case rest of
           [] \<Rightarrow> Inl OutsideFragment
         | eq # rhs \<Rightarrow>
             (case parse_target lhs of
                Inl e \<Rightarrow> Inl e
              | Inr tgt \<Rightarrow>
                  (case parse_atoms rhs of Inl e \<Rightarrow> Inl e | Inr atoms \<Rightarrow> Inr (tgt, atoms))))"

fun parse_statements :: "token list list \<Rightarrow> js_fault + (target \<times> atom list) list" where
  "parse_statements [] = Inr []"
| "parse_statements (ts # rest) =
     (case parse_statement ts of
        Inl e \<Rightarrow> Inl e
      | Inr st \<Rightarrow> (case parse_statements rest of Inl e \<Rightarrow> Inl e | Inr sts \<Rightarrow> Inr (st # sts)))"

text \<open>The program of a script text; a script must end after a \<open>;\<close>.\<close>

definition parse_script :: "string \<Rightarrow> js_fault + (target \<times> atom list) list" where
  "parse_script src =
     (case lex src of
        Inl e \<Rightarrow> Inl e
      | Inr toks \<Rightarrow>
          (case split_statements [] toks of
             (stmts, rest) \<Rightarrow> if rest \<noteq> [] then Inl OutsideFragment else parse_statements stmts))"

text \<open>
  The page \<open>restore_state\<close> writes to: its global variables, and the \<open>innerHTML\<close> and
  \<open>textContent\<close> of its elements by id.
\<close>

record element =
  innerHTML :: string
  textContent :: string

record js_page =
  js_globals :: "(string \<times> jval) list"
  js_elements :: "(string \<times> element) list"

text \<open>JavaScript's conversion to a string, for the scalar values.\<close>

fun js_to_string :: "jval \<Rightarrow> string option" where
  "js_to_string (JStr s) = Some s"
| "js_to_string (JNum n) = Some (show_int n)"
| "js_to_string (JBool b) = Some (if b then ''true'' else ''false'')"
| "js_to_string JNull = Some ''null''"
| "js_to_string v = None"

text \<open>\<open>a + b\<close>: the sum of two numbers, the concatenation when one side is a string.\<close>

fun js_plus :: "jval \<Rightarrow> jval \<Rightarrow> js_fault + jval" where
  "js_plus (JNum a) (JNum b) = Inr (JNum (a + b))"
| "js_plus (JStr a) b =
     (case js_to_string b of None \<Rightarrow> Inl OutsideFragment | Some t \<Rightarrow> Inr (JStr (a @ t)))"
| "js_plus a (JStr b) =
     (case js_to_string a of None \<Rightarrow> Inl OutsideFragment | Some t \<Rightarrow> Inr (JStr (t @ b)))"
| "js_plus a b = Inl OutsideFragment"

definition eval_atom :: "js_page \<Rightarrow> atom \<Rightarrow> js_fault + jval" where
  "eval_atom pg a =
     (case a of
        AStr s \<Rightarrow> Inr (JStr s)
      | ANum n \<Rightarrow> Inr (JNum n)
      | AVar x \<Rightarrow>
          if x = ''true'' then Inr (JBool True)
          else if x = ''false'' then Inr (JBool False)
          else if x = ''null'' then Inr JNull
          else (case map_of (js_globals pg) x of None \<Rightarrow> Inl ReferenceError | Some v \<Rightarrow> Inr v))"

fun eval_sum :: "js_page \<Rightarrow> jval \<Rightarrow> atom list \<Rightarrow> js_fault + jval" where
  "eval_sum pg acc [] = Inr acc"
| "eval_sum pg acc (a # rest) =
     (case eval_atom pg a of
        Inl e \<Rightarrow> Inl e
      | Inr v \<Rightarrow> (case js_plus acc v of Inl e \<Rightarrow> Inl e | Inr w \<Rightarrow> eval_sum pg w rest))"

definition eval_expr :: "js_page \<Rightarrow> atom list \<Rightarrow> js_fault + jval" where
  "eval_expr pg atoms =
     (case atoms of
        [] \<Rightarrow> Inl OutsideFragment
      | a # rest \<Rightarrow> (case eval_atom pg a of Inl e \<Rightarrow> Inl e | Inr v \<Rightarrow> eval_sum pg v rest))"

text \<open>
  One statement. Writing a property of an element the page does not have is the
  \<open>TypeError\<close> of reading a property of \<open>null\<close>.
\<close>

definition exec_statement :: "js_page \<Rightarrow> target \<times> atom list \<Rightarrow> js_fault + js_page" where
  "exec_statement pg st =
     (case eval_expr pg (snd st) of
        Inl e \<Rightarrow> Inl e
      | Inr v \<Rightarrow>
          (case fst st of
             VarTarget x \<Rightarrow> Inr (pg\<lparr>js_globals := dict_set x v (js_globals pg)\<rparr>)
           | PropTarget el prop \<Rightarrow>
               (case map_of (js_elements pg) el of
                  None \<Rightarrow> Inl NullTypeError
                | Some e \<Rightarrow>
                    (case js_to_string v of
                       None \<Rightarrow> Inl OutsideFragment
                     | Some str \<Rightarrow>
                         if prop = ''innerHTML''
                         then Inr (pg\<lparr>js_elements := dict_set el (e\<lparr>innerHTML := str\<rparr>) (js_elements pg)\<rparr>)
                         else if prop = ''textContent''
                         then Inr (pg\<lparr>js_elements := dict_set el (e\<lparr>textContent := str\<rparr>) (js_elements pg)\<rparr>)
                         else Inl OutsideFragment))))"

text \<open>
  The outcome of \<open>page.evaluate\<close>: the fault, if one was thrown, and the page afterwards.
  A statement that throws ends the script; what ran before it stays done.
\<close>

fun exec_statements :: "js_page \<Rightarrow> (target \<times> atom list) list \<Rightarrow> js_fault option \<times> js_page" where
  "exec_statements pg [] = (None, pg)"
| "exec_statements pg (st # sts) =
     (case exec_statement pg st of
        Inl e \<Rightarrow> (Some e, pg)
      | Inr pg' \<Rightarrow> exec_statements pg' sts)"

definition page_evaluate :: "js_page \<Rightarrow> string \<Rightarrow> js_fault option \<times> js_page" where
  "page_evaluate pg src =
     (case parse_script src of
        Inl e \<Rightarrow> (Some e, pg)
      | Inr program \<Rightarrow> exec_statements pg program)"

text \<open>
  \<open>restore_state(page, snapshot)\<close>: a fault of \<open>page.evaluate\<close> is an exception that
  \<open>restore_state\<close> lets through.
\<close>

definition restore_state :: "pylib \<Rightarrow> js_page \<Rightarrow> snapshot \<Rightarrow> js_fault option \<times> js_page" where
  "restore_state lib pg snap = page_evaluate pg (full_script lib snap)"

text \<open>A string with no single quote, backslash, line feed or carriage return.\<close>

definition plain :: "string \<Rightarrow> bool" where
  "plain v \<longleftrightarrow>
     (\<forall>c \<in> set v. c \<noteq> squote \<and> c \<noteq> backslash \<and> c \<noteq> newline \<and> c \<noteq> carriage_return)"

text \<open>
  For snapshots without lists and dicts the library is not called; \<open>no_lib\<close> stands in
  for it there.
\<close>

definition no_lib :: pylib where
  "no_lib = \<lparr>json_dumps = (\<lambda>v. []), py_repr = (\<lambda>v. [])\<rparr>"

definition vars_snapshot :: "(string \<times> jval) list \<Rightarrow> snapshot" where
  "vars_snapshot vars = \<lparr>snap_vars = vars, snap_dom = None, snap_timestamp = 0\<rparr>"

text \<open>
  A page with the content and counter elements, whose variable \<open>stage\<close> has the value
  \<open>v\<close>, the counter showing \<open>shown\<close>.
\<close>

definition stage_js_page :: "jval \<Rightarrow> string \<Rightarrow> string \<Rightarrow> js_page" where
  "stage_js_page v html shown =
     \<lparr>js_globals = [(''stage'', v)],
      js_elements = [(''contentArea'', \<lparr>innerHTML = html, textContent = []\<rparr>),
                     (''counter'', \<lparr>innerHTML = [], textContent = shown\<rparr>)]\<rparr>"

text \<open>The snapshot whose captured \<open>stage\<close> is the string \<open>x' + stage + 'y\<close>.\<close>

definition quoting_snapshot :: snapshot where
  "quoting_snapshot =
     vars_snapshot [(''stage'', JStr (''x'' @ [squote] @ '' + stage + '' @ [squote] @ ''y''))]"

section \<open>Properties of the converter\<close>

lemma add_wait_fields [simp]:
  "a_type (add_wait w a) = a_type a" "a_key (add_wait w a) = a_key a"
  by (simp_all add: add_wait_def)

lemma convert_event_not_dropped:
  assumes "convert_event e lt = Inr (Some (a, t))"
  shows "a_type a \<noteq> ''mousemove'' \<and>
         \<not> (a_type a = ''keypress'' \<and> (\<exists>k \<in> set modifier_keys. a_key a = Some k))"
  using assms
  by (auto simp: convert_event_def Let_def empty_action_def split: option.splits if_splits)

lemma convert_loop_actions:
  assumes "convert_loop es acc lt = Inr acts"
    and "\<forall>a \<in> set acc. P a"
    and "\<And>e lt a t. convert_event e lt = Inr (Some (a, t)) \<Longrightarrow> P a"
  shows "\<forall>a \<in> set acts. P a"
  using assms(1,2)
proof (induction es arbitrary: acc lt)
  case Nil
  then show ?case by simp
next
  case (Cons e es)
  show ?case
  proof (cases "convert_event e lt")
    case (Inl err)
    with Cons.prems show ?thesis by simp
  next
    case (Inr r)
    show ?thesis
    proof (cases r)
      case None
      with Inr Cons.prems Cons.IH [of acc lt] show ?thesis by simp
    next
      case (Some p)
      obtain a t where p: "p = (a, t)" by (cases p)
      from Inr Some p have ce: "convert_event e lt = Inr (Some (a, t))" by simp
      from assms(3) [OF ce] Cons.prems(2) have "\<forall>b \<in> set (acc @ [a]). P b" by simp
      moreover from ce Cons.prems(1) have "convert_loop es (acc @ [a]) t = Inr acts" by simp
      ultimately show ?thesis using Cons.IH by blast
    qed
  qed
qed

lemma convert_event_dropped:
  assumes "dropped e" and "convert_event e lt \<noteq> Inl KeyError"
  shows "convert_event e lt = Inr None"
  using assms
  by (auto simp: convert_event_def dropped_def Let_def split: option.splits)

lemma convert_event_error: "convert_event e lt = Inl err \<Longrightarrow> err = KeyError"
  by (auto simp: convert_event_def Let_def split: option.splits if_splits)

lemma convert_loop_filter:
  assumes "convert_loop es acc lt = Inr acts"
  shows "convert_loop (filter (\<lambda>e. \<not> dropped e) es) acc lt = Inr acts"
  using assms
proof (induction es arbitrary: acc lt)
  case Nil
  then show ?case by simp
next
  case (Cons e es)
  show ?case
  proof (cases "dropped e")
    case True
    from Cons.prems have "convert_event e lt \<noteq> Inl KeyError"
      by (auto split: sum.splits)
    with True have "convert_event e lt = Inr None" by (rule convert_event_dropped)
    with Cons True show ?thesis by simp
  next
    case False
    with Cons show ?thesis
      by (auto split: sum.splits option.splits)
  qed
qed

text \<open>
  C2. The recording \<open>[click at 0.0, mousemove at 0.05, mousemove at 0.1, click at 0.5]\<close>:
  the converter removes both mousemoves, but the second click gets no \<open>wait\<close> either.
  After the first click \<open>last_time\<close> is \<open>0.0\<close>, the guard \<open>last_time > 0\<close> is false, and
  \<open>wait_time\<close> is \<open>0\<close> instead of \<open>0.5 - 0.0\<close>.
\<close>

theorem convert_click_at_zero_loses_wait:
  "convert_recording_to_script
     [click_event ''#start'' 10 20 0, mousemove_event 11 21 (1 / 20),
      mousemove_event 12 22 (1 / 10), click_event ''#next'' 30 40 (1 / 2)]
   = Inr [click_action ''#start'' 10 20 None, click_action ''#next'' 30 40 None]"
  by (simp add: convert_recording_to_script_def convert_event_def click_event_def
      mousemove_event_def click_action_def empty_action_def add_wait_def)

text \<open>
  The same recording shifted by 0.2 seconds: now the second click waits \<open>0.5\<close>, the
  difference to the first click and not to the mousemove before it.
\<close>

lemma convert_click_after_zero_keeps_wait:
  "convert_recording_to_script
     [click_event ''#start'' 10 20 (1 / 5), mousemove_event 11 21 (1 / 4),
      mousemove_event 12 22 (3 / 10), click_event ''#next'' 30 40 (7 / 10)]
   = Inr [click_action ''#start'' 10 20 None, click_action ''#next'' 30 40 (Some (1 / 2))]"
  by (simp add: convert_recording_to_script_def convert_event_def click_event_def
      mousemove_event_def click_action_def empty_action_def add_wait_def py_round1_def Let_def)

text \<open>
  C9. Whenever the converter produces a script, no action of it is a mousemove and no
  keypress action carries a bare modifier key; and the script is the one the converter
  produces from the recording without its dropped events, so a dropped event (a
  mousemove, a modifier keypress) never is the previous retained action of a later wait.
\<close>

theorem convert_drops_mousemove_and_modifiers:
  assumes "convert_recording_to_script events = Inr actions"
  shows "(\<forall>a \<in> set actions. a_type a \<noteq> ''mousemove'' \<and>
            \<not> (a_type a = ''keypress'' \<and> (\<exists>k \<in> set modifier_keys. a_key a = Some k))) \<and>
         convert_recording_to_script (filter (\<lambda>e. \<not> dropped e) events) = Inr actions"
proof
  have loop: "convert_loop events [] 0 = Inr actions"
    using assms by (simp add: convert_recording_to_script_def)
  then show "\<forall>a \<in> set actions. a_type a \<noteq> ''mousemove'' \<and>
          \<not> (a_type a = ''keypress'' \<and> (\<exists>k \<in> set modifier_keys. a_key a = Some k))"
  proof (rule convert_loop_actions)
    show "\<forall>a \<in> set []. a_type a \<noteq> ''mousemove'' \<and>
          \<not> (a_type a = ''keypress'' \<and> (\<exists>k \<in> set modifier_keys. a_key a = Some k))"
      by simp
  qed (rule convert_event_not_dropped)
  from loop show "convert_recording_to_script (filter (\<lambda>e. \<not> dropped e) events) = Inr actions"
    unfolding convert_recording_to_script_def by (rule convert_loop_filter)
qed

theorem convert_drops_mousemove_and_modifiers_witness:
  "convert_recording_to_script
     [click_event ''#start'' 10 20 (1 / 5), keypress_event ''Shift'' (3 / 10),
      mousemove_event 12 22 (7 / 20), keypress_event ''a'' (4 / 5)]
   = Inr [click_action ''#start'' 10 20 None, keypress_action ''a'' (Some (3 / 5))] \<and>
   convert_recording_to_script
     (filter (\<lambda>e. \<not> dropped e)
        [click_event ''#start'' 10 20 (1 / 5), keypress_event ''Shift'' (3 / 10),
         mousemove_event 12 22 (7 / 20), keypress_event ''a'' (4 / 5)])
   = Inr [click_action ''#start'' 10 20 None, keypress_action ''a'' (Some (3 / 5))]"
proof -
  have run: "convert_recording_to_script
     [click_event ''#start'' 10 20 (1 / 5), keypress_event ''Shift'' (3 / 10),
      mousemove_event 12 22 (7 / 20), keypress_event ''a'' (4 / 5)]
   = Inr [click_action ''#start'' 10 20 None, keypress_action ''a'' (Some (3 / 5))]"
    by (simp add: convert_recording_to_script_def convert_event_def click_event_def
        mousemove_event_def keypress_event_def click_action_def keypress_action_def
        empty_action_def add_wait_def py_round1_def modifier_keys_def Let_def)
  from convert_drops_mousemove_and_modifiers [OF run] have
    "convert_recording_to_script
       (filter (\<lambda>e. \<not> dropped e)
          [click_event ''#start'' 10 20 (1 / 5), keypress_event ''Shift'' (3 / 10),
           mousemove_event 12 22 (7 / 20), keypress_event ''a'' (4 / 5)])
     = Inr [click_action ''#start'' 10 20 None, keypress_action ''a'' (Some (3 / 5))]"
    by (rule conjunct2)
  with run show ?thesis by (rule conjI)
qed

section \<open>Properties of the replayer\<close>

lemma replay_wait_time_speed_zero:
  "ev_timestamp e = Some t \<Longrightarrow> replay_wait_time e 0 elapsed = Inl ZeroDivisionError"
  by (simp add: replay_wait_time_def)





text \<open>
  The run of the witness, step by step: the first click (offset 1 at speed 2) is
  reached after sleeping \<open>1/2\<close>; the second (offset 3, target \<open>3/2\<close>) is late, since the
  first took 2 seconds, and is executed at once, with no sleep.
\<close>

lemma replay_late_event_runs_at_once:
  "replay 2 (\<lambda>e. 2) 5 [click_event ''#a'' 1 1 1, click_event ''#b'' 2 2 3]
   = Inr [\<lparr>rs_elapsed = 0, rs_slept = 1 / 2, rs_event = click_event ''#a'' 1 1 1\<rparr>,
          \<lparr>rs_elapsed = 5 / 2, rs_slept = 0, rs_event = click_event ''#b'' 2 2 3\<rparr>]"
  by (simp add: replay_def replay_wait_time_def slept_def click_event_def Let_def)

section \<open>Properties of schema validation\<close>

lemma check_fields_True:
  "check_fields state fs = Inr True \<Longrightarrow> \<forall>f \<in> set fs. py_in f state = Inr True"
  by (induction fs) (auto split: sum.splits if_splits)

lemma check_states_True:
  "check_states sts = Inr True \<Longrightarrow> \<forall>st \<in> set sts. check_fields st required_fields = Inr True"
  by (induction sts) (auto split: sum.splits if_splits)

lemma validate_states_json_cases:
  assumes "validate_states_json data"
  obtains obj meta sts where "data = JObj obj"
    and "map_of obj ''metadata'' = Some (JObj meta)"
    and "''total_states'' \<in> set (map fst meta)"
    and "map_of obj ''states'' = Some (JList sts)"
    and "sts \<noteq> []" and "check_states sts = Inr True"
proof -
  from assms obtain obj where d: "data = JObj obj"
    by (cases data) (simp_all add: validate_states_json_def)
  from assms d obtain metadata states where
    m: "map_of obj ''metadata'' = Some metadata" and s: "map_of obj ''states'' = Some states"
    by (auto simp: validate_states_json_def split: option.splits)
  from assms d m s obtain meta where meta: "metadata = JObj meta"
    by (cases metadata) (simp_all add: validate_states_json_def)
  from assms d m s meta have total: "''total_states'' \<in> set (map fst meta)"
    by (auto simp: validate_states_json_def split: if_splits)
  from assms d m s meta total obtain sts where sts: "states = JList sts"
    by (cases states) (simp_all add: validate_states_json_def)
  from assms d m s meta total sts have "sts \<noteq> []" and "check_states sts = Inr True"
    by (auto simp: validate_states_json_def split: if_splits sum.splits)
  with d m s meta total sts that show thesis by blast
qed

text \<open>
  C8 (as the code has it). A schema passes validation only if it is a dict with a
  \<open>metadata\<close> dict that has \<open>total_states\<close>, and a \<open>states\<close> list that is not empty and
  whose every state has the four required fields \<open>id\<close>, \<open>name\<close>, \<open>description\<close> and
  \<open>color_theme\<close>; any other schema is refused with \<open>ValueError\<close>. The ids are not
  compared with each other.
\<close>

theorem validate_rejects_missing_fields_and_empty_list:
  assumes "validate_states_json data"
  shows "\<exists>obj meta sts.
           data = JObj obj \<and> map_of obj ''metadata'' = Some (JObj meta) \<and>
           ''total_states'' \<in> set (map fst meta) \<and>
           map_of obj ''states'' = Some (JList sts) \<and> sts \<noteq> [] \<and>
           (\<forall>st \<in> set sts. \<forall>f \<in> set required_fields. py_in f st = Inr True) \<and>
           checked_schema data = Inr data"
proof -
  from assms obtain obj meta sts where parts: "data = JObj obj"
    "map_of obj ''metadata'' = Some (JObj meta)" "''total_states'' \<in> set (map fst meta)"
    "map_of obj ''states'' = Some (JList sts)" "sts \<noteq> []" "check_states sts = Inr True"
    by (rule validate_states_json_cases)
  from parts(6) have "\<forall>st \<in> set sts. \<forall>f \<in> set required_fields. py_in f st = Inr True"
    using check_states_True check_fields_True by blast
  moreover from assms have "checked_schema data = Inr data" by (simp add: checked_schema_def)
  ultimately show ?thesis using parts(1-5) by blast
qed

theorem validate_rejects_missing_fields_and_empty_list_witness:
  "validate_states_json (schema_obj [state_obj 0 ''Initial'', state_obj 1 ''Hook'']) \<and>
   (\<exists>obj meta sts.
      schema_obj [state_obj 0 ''Initial'', state_obj 1 ''Hook''] = JObj obj \<and>
      map_of obj ''metadata'' = Some (JObj meta) \<and> map_of obj ''states'' = Some (JList sts) \<and>
      sts \<noteq> [])"
proof -
  have ok: "validate_states_json (schema_obj [state_obj 0 ''Initial'', state_obj 1 ''Hook''])"
    by (simp add: validate_states_json_def schema_obj_def state_obj_def required_fields_def)
  from validate_rejects_missing_fields_and_empty_list [OF ok] ok show ?thesis by blast
qed

text \<open>
  Against C8 as stated: a schema whose two states both have id \<open>0\<close> passes validation.
\<close>

theorem validate_accepts_duplicate_ids:
  "validate_states_json (schema_obj [state_obj 0 ''Initial'', state_obj 0 ''Again'']) \<and>
   schema_ids (schema_obj [state_obj 0 ''Initial'', state_obj 0 ''Again'']) = [JNum 0, JNum 0] \<and>
   checked_schema (schema_obj [state_obj 0 ''Initial'', state_obj 0 ''Again''])
     = Inr (schema_obj [state_obj 0 ''Initial'', state_obj 0 ''Again''])"
  by (simp add: validate_states_json_def checked_schema_def schema_ids_def schema_obj_def
      state_obj_def required_fields_def)

text \<open>The refusals the claim names that the code does make, at concrete schemas.\<close>

lemma validate_rejects_empty_state_list: "\<not> validate_states_json (schema_obj [])"
  by (simp add: validate_states_json_def schema_obj_def)

lemma validate_rejects_state_without_name:
  "\<not> validate_states_json
        (schema_obj [JObj [(''id'', JNum 0), (''description'', JStr []), (''color_theme'', JObj [])]])"
  by (simp add: validate_states_json_def schema_obj_def required_fields_def)

lemma validate_rejects_missing_metadata:
  "\<not> validate_states_json (JObj [(''states'', JList [state_obj 0 ''Initial''])])"
  by (simp add: validate_states_json_def)

section \<open>Properties of the detectors\<close>

lemma blk_id_generate_block [simp]: "blk_id (generate_block s) = st_id s"
  by (simp add: generate_block_def)
















lemma var_log_no_dom [simp]: "DomStrategy i \<notin> set (var_log b)"
  by (simp add: var_log_def)

lemma dom_log_iff [simp]:
  "DomStrategy i \<in> set (dom_log b) \<longleftrightarrow> blk_checks b \<noteq> [] \<and> blk_id b = i"
  by (auto simp: dom_log_def)

lemma dom_reached_Nil [simp]: "\<not> dom_reached p [] i"
  by (simp add: dom_reached_def)






section \<open>Properties of the snapshot store\<close>




text \<open>Storing under a key the dict has replaces the value: the dict does not grow.\<close>

lemma length_dict_set_replace:
  "k \<in> fst ` set items \<Longrightarrow> length (dict_set k v items) = length items"
  by (induction items) force+












text \<open>
  The store of that run, item by item: state 1 was entered twice and has one snapshot,
  the one of the second entry.
\<close>

lemma demo_store:
  "snapshots (poll (new_recorder True True None (Some 100)) demo_ticks)
   = [(1, stage_snapshot 1 ''<p>third</p>'' 3), (2, stage_snapshot 2 ''<p>second</p>'' 2)]"
  by (simp add: demo_ticks_def new_recorder_def stage_page_def stage_snapshot_def
      current_state_of_def evaluate_or_def evaluate_content_def capture_snapshot_def
      check_stage_change_def config_variables_def Let_def)


section \<open>Properties of restore\<close>

lemma lex_from_plain:
  "plain v \<Longrightarrow> lex_from (InStr acc) (v @ rest) = lex_from (InStr (acc @ v)) rest"
proof (induction v arbitrary: acc)
  case Nil
  show ?case by simp
next
  case (Cons c v)
  from Cons.prems have c: "c \<noteq> squote" "c \<noteq> backslash" "c \<noteq> newline" "c \<noteq> carriage_return"
    and v: "plain v" by (simp_all add: plain_def)
  have "lex_from (InStr acc) ((c # v) @ rest) = lex_from (InStr (acc @ [c])) (v @ rest)"
    using c by (simp split: sum.splits)
  also have "\<dots> = lex_from (InStr ((acc @ [c]) @ v)) rest" using v by (rule Cons.IH)
  finally show ?case by simp
qed

lemma lex_quote_start: "lex (squote # s) = lex_from (InStr []) s"
  by (simp add: lex_def start_char_def is_space_def split: sum.splits)

text \<open>The literal \<open>'v'\<close> of a plain string \<open>v\<close> is one token, the string \<open>v\<close>.\<close>

lemma literal_of_plain: "plain v \<Longrightarrow> lex ([squote] @ v @ [squote]) = Inr [TStr v]"
  using lex_from_plain [of v "[]" "[squote]"]
  by (simp add: lex_quote_start del: lex_from.simps) (simp)

lemma escaped_length: "escaped c = Inr added \<Longrightarrow> length added \<le> 1"
  by (auto simp: escaped_def split: if_splits)

text \<open>
  A string literal is longer than the string it denotes: every character of the text
  adds one character at most, and the closing quote adds none.
\<close>

lemma literal_length:
  "lex_from st s = Inr [TStr w] \<Longrightarrow> st = InStr acc \<or> st = InEsc acc \<Longrightarrow>
   length w + 1 \<le> length acc + length s"
proof (induction s arbitrary: st acc)
  case Nil
  then show ?case by auto
next
  case (Cons c cs)
  from Cons.prems(2) show ?case
  proof
    assume st: "st = InStr acc"
    consider (q) "c = squote" | (b) "c = backslash" | (n) "c = newline \<or> c = carriage_return"
      | (p) "c \<noteq> squote" "c \<noteq> backslash" "c \<noteq> newline" "c \<noteq> carriage_return"
      by blast
    then show ?thesis
    proof cases
      case q
      with Cons.prems(1) st have "w = acc" by (auto split: sum.splits)
      then show ?thesis by simp
    next
      case b
      with Cons.prems(1) st have "lex_from (InEsc acc) cs = Inr [TStr w]"
        by (auto split: sum.splits)
      from Cons.IH [OF this] show ?thesis by simp
    next
      case n
      with Cons.prems(1) st show ?thesis by auto
    next
      case p
      with Cons.prems(1) st have "lex_from (InStr (acc @ [c])) cs = Inr [TStr w]"
        by (auto split: sum.splits)
      from Cons.IH [OF this] show ?thesis by simp
    qed
  next
    assume st: "st = InEsc acc"
    with Cons.prems(1) obtain added where a: "escaped c = Inr added"
      and l: "lex_from (InStr (acc @ added)) cs = Inr [TStr w]"
      by (auto split: sum.splits)
    from Cons.IH [OF l] escaped_length [OF a] show ?thesis by simp
  qed
qed

lemma literal_plain:
  assumes "lex ([squote] @ v @ [squote]) = Inr [TStr v]"
  shows "plain v"
proof (rule ccontr)
  assume "\<not> plain v"
  then have "\<exists>c \<in> set v. \<not> (c \<noteq> squote \<and> c \<noteq> backslash \<and> c \<noteq> newline \<and> c \<noteq> carriage_return)"
    by (simp add: plain_def)
  then obtain pre c post where v: "v = pre @ c # post"
    and c: "\<not> (c \<noteq> squote \<and> c \<noteq> backslash \<and> c \<noteq> newline \<and> c \<noteq> carriage_return)"
    and pre: "\<forall>d \<in> set pre. \<not> \<not> (d \<noteq> squote \<and> d \<noteq> backslash \<and> d \<noteq> newline \<and> d \<noteq> carriage_return)"
    by (rule split_list_first_propE) blast
  from pre have "plain pre" by (simp add: plain_def)
  from assms have "lex_from (InStr []) (pre @ (c # post @ [squote])) = Inr [TStr v]"
    by (simp add: lex_quote_start v del: lex_from.simps)
  with lex_from_plain [OF \<open>plain pre\<close>, of "[]" "c # post @ [squote]"]
  have run: "lex_from (InStr pre) (c # post @ [squote]) = Inr [TStr v]" by simp
  from c consider (q) "c = squote" | (b) "c = backslash" | (n) "c = newline \<or> c = carriage_return"
    by blast
  then show False
  proof cases
    case q
    with run have "v = pre" by (auto split: sum.splits)
    with v show False by simp
  next
    case b
    with run have "lex_from (InEsc pre) (post @ [squote]) = Inr [TStr v]"
      by (auto split: sum.splits)
    from literal_length [OF this, of pre] v show False by simp
  next
    case n
    with run show False by auto
  qed
qed

lemma replace_char_Nil [simp]: "replace_char old new [] = []"
  by (simp add: replace_char_def)

lemma replace_char_Cons:
  "replace_char old new (c # s) = (if c = old then new else [c]) @ replace_char old new s"
  by (simp add: replace_char_def)

lemma replace_char_append:
  "replace_char old new (s @ t) = replace_char old new s @ replace_char old new t"
  by (simp add: replace_char_def)

lemma escape_dom_Nil [simp]: "escape_dom [] = []"
  by (simp add: escape_dom_def)

text \<open>The three \<open>replace\<close> calls, one after the other, escape character by character.\<close>

lemma escape_dom_Cons:
  "escape_dom (c # s) =
     (if c = backslash then [backslash, backslash]
      else if c = squote then [backslash, squote]
      else if c = newline then [backslash, CHR ''n'']
      else [c]) @ escape_dom s"
  by (simp add: escape_dom_def replace_char_Cons replace_char_append)

lemma lex_from_escape_dom:
  "carriage_return \<notin> set html \<Longrightarrow>
   lex_from (InStr acc) (escape_dom html @ rest) = lex_from (InStr (acc @ html)) rest"
proof (induction html arbitrary: acc)
  case Nil
  show ?case by simp
next
  case (Cons c html)
  from Cons.prems have c: "c \<noteq> carriage_return" and h: "carriage_return \<notin> set html" by auto
  have "lex_from (InStr acc) (escape_dom (c # html) @ rest)
          = lex_from (InStr (acc @ [c])) (escape_dom html @ rest)"
    using c by (simp add: escape_dom_Cons escaped_def is_digit_def split: sum.splits)
  also have "\<dots> = lex_from (InStr ((acc @ [c]) @ html)) rest" using h by (rule Cons.IH)
  finally show ?case by simp
qed

lemma dom_literal:
  "carriage_return \<notin> set html \<Longrightarrow> lex ([squote] @ escape_dom html @ [squote]) = Inr [TStr html]"
  using lex_from_escape_dom [of html "[]" "[squote]"]
  by (simp add: lex_quote_start del: lex_from.simps) (simp)

lemma restore_quote_is_syntax_error:
  "restore_state lib (stage_js_page (JNum 0) [] [])
     (vars_snapshot [(''stage'', JStr (''it'' @ [squote] @ ''s''))])
   = (Some SyntaxError, stage_js_page (JNum 0) [] [])"
  by (simp add: restore_state_def page_evaluate_def parse_script_def lex_def full_script_def
      restore_script_def config_variables_def vars_snapshot_def start_char_def is_space_def
      ident_start_def is_digit_def is_punct_def)

text \<open>
  C10. \<open>restore_state\<close> writes a captured string between single quotes as it is. The
  literal so written denotes the captured string exactly when the string has no single
  quote, backslash, line feed or carriage return. The DOM fragment is escaped: its
  literal denotes the fragment (when it has no carriage return). And there is a snapshot
  whose string has a single quote for which the script is refused with a
  \<open>SyntaxError\<close> and the page is left as it was, without the captured value.
\<close>

theorem restore_writes_strings_unescaped:
  "restore_assignment lib var_name (JStr v) = var_name @ '' = '' @ [squote] @ v @ [squote] @ '';'' \<and>
   (lex ([squote] @ v @ [squote]) = Inr [TStr v] \<longleftrightarrow>
      (\<forall>c \<in> set v. c \<noteq> squote \<and> c \<noteq> backslash \<and> c \<noteq> newline \<and> c \<noteq> carriage_return)) \<and>
   (carriage_return \<notin> set html \<longrightarrow>
      lex ([squote] @ escape_dom html @ [squote]) = Inr [TStr html]) \<and>
   (\<exists>bad pg. squote \<in> set bad \<and>
      restore_state lib pg (vars_snapshot [(''stage'', JStr bad)]) = (Some SyntaxError, pg) \<and>
      map_of (js_globals pg) ''stage'' \<noteq> Some (JStr bad))"
proof (intro conjI)
  show "restore_assignment lib var_name (JStr v) = var_name @ '' = '' @ [squote] @ v @ [squote] @ '';''"
    by simp
  show "lex ([squote] @ v @ [squote]) = Inr [TStr v] \<longleftrightarrow>
      (\<forall>c \<in> set v. c \<noteq> squote \<and> c \<noteq> backslash \<and> c \<noteq> newline \<and> c \<noteq> carriage_return)"
    using literal_plain [of v] literal_of_plain [of v] unfolding plain_def by blast
  show "carriage_return \<notin> set html \<longrightarrow>
      lex ([squote] @ escape_dom html @ [squote]) = Inr [TStr html]"
    using dom_literal by blast
  have "squote \<in> set (''it'' @ [squote] @ ''s'') \<and>
      restore_state lib (stage_js_page (JNum 0) [] [])
        (vars_snapshot [(''stage'', JStr (''it'' @ [squote] @ ''s''))])
      = (Some SyntaxError, stage_js_page (JNum 0) [] []) \<and>
      map_of (js_globals (stage_js_page (JNum 0) [] [])) ''stage''
      \<noteq> Some (JStr (''it'' @ [squote] @ ''s''))"
    using restore_quote_is_syntax_error [of lib] by (simp add: stage_js_page_def)
  then show "\<exists>bad pg. squote \<in> set bad \<and>
      restore_state lib pg (vars_snapshot [(''stage'', JStr bad)]) = (Some SyntaxError, pg) \<and>
      map_of (js_globals pg) ''stage'' \<noteq> Some (JStr bad)"
    by blast
qed

theorem restore_writes_strings_unescaped_witness:
  "lex ([squote] @ ''Hook'' @ [squote]) = Inr [TStr ''Hook''] \<and>
   lex ([squote] @ escape_dom (''<b>it'' @ [squote] @ ''s</b>'') @ [squote])
     = Inr [TStr (''<b>it'' @ [squote] @ ''s</b>'')]"
proof -
  have p: "\<forall>c \<in> set ''Hook''. c \<noteq> squote \<and> c \<noteq> backslash \<and> c \<noteq> newline \<and> c \<noteq> carriage_return"
    by simp
  have d: "carriage_return \<notin> set (''<b>it'' @ [squote] @ ''s</b>'')" by simp
  note inst = restore_writes_strings_unescaped
    [of no_lib "''stage''" "''Hook''" "''<b>it'' @ [squote] @ ''s</b>''"]
  from inst p have "lex ([squote] @ ''Hook'' @ [squote]) = Inr [TStr ''Hook'']" by blast
  moreover from inst d
  have "lex ([squote] @ escape_dom (''<b>it'' @ [squote] @ ''s</b>'') @ [squote])
          = Inr [TStr (''<b>it'' @ [squote] @ ''s</b>'')]" by blast
  ultimately show ?thesis by (rule conjI)
qed

text \<open>
  C5. The page's \<open>stage\<close> is \<open>a\<close> and the snapshot's is the string \<open>x' + stage + 'y\<close>.
  The restore script is \<open>stage = 'x' + stage + 'y';\<close>: one restore leaves \<open>xay\<close> in
  \<open>stage\<close>, a second one \<open>xxayy\<close>.
\<close>

theorem restore_twice_differs_from_once:
  "full_script no_lib quoting_snapshot
     = ''stage = '' @ [squote] @ ''x'' @ [squote] @ '' + stage + '' @ [squote] @ ''y'' @ [squote] @ '';'' \<and>
   restore_state no_lib (stage_js_page (JStr ''a'') [] []) quoting_snapshot
     = (None, stage_js_page (JStr ''xay'') [] []) \<and>
   restore_state no_lib (stage_js_page (JStr ''xay'') [] []) quoting_snapshot
     = (None, stage_js_page (JStr ''xxayy'') [] [])"
  by (simp add: restore_state_def page_evaluate_def parse_script_def lex_def full_script_def
      restore_script_def config_variables_def vars_snapshot_def quoting_snapshot_def
      start_char_def is_space_def ident_start_def is_digit_def is_punct_def parse_statement_def
      parse_target_def exec_statement_def eval_expr_def eval_atom_def stage_js_page_def)

text \<open>
  A snapshot of numbers, a bool, a plain string and a DOM fragment, restored twice: the
  second restore changes nothing.
\<close>

lemma restore_plain_snapshot_twice:
  "restore_state no_lib (stage_js_page (JNum 0) [] [])
     \<lparr>snap_vars = [(''stage'', JNum 2), (''notificationCount'', JNum 15),
                   (''isHellMode'', JBool False), (''tapCount'', JNum (- 3))],
      snap_dom = Some (''<p class='' @ [squote] @ ''a'' @ [squote] @ ''>hi</p>''),
      snap_timestamp = 0\<rparr>
   = (None,
      \<lparr>js_globals = [(''stage'', JNum 2), (''notificationCount'', JNum 15),
                      (''tapCount'', JNum (- 3)), (''isHellMode'', JBool False)],
       js_elements =
         [(''contentArea'',
           \<lparr>innerHTML = ''<p class='' @ [squote] @ ''a'' @ [squote] @ ''>hi</p>'', textContent = []\<rparr>),
          (''counter'', \<lparr>innerHTML = [], textContent = ''15''\<rparr>)]\<rparr>) \<and>
   restore_state no_lib
     \<lparr>js_globals = [(''stage'', JNum 2), (''notificationCount'', JNum 15),
                     (''tapCount'', JNum (- 3)), (''isHellMode'', JBool False)],
      js_elements =
        [(''contentArea'',
          \<lparr>innerHTML = ''<p class='' @ [squote] @ ''a'' @ [squote] @ ''>hi</p>'', textContent = []\<rparr>),
         (''counter'', \<lparr>innerHTML = [], textContent = ''15''\<rparr>)]\<rparr>
     \<lparr>snap_vars = [(''stage'', JNum 2), (''notificationCount'', JNum 15),
                   (''isHellMode'', JBool False), (''tapCount'', JNum (- 3))],
      snap_dom = Some (''<p class='' @ [squote] @ ''a'' @ [squote] @ ''>hi</p>''),
      snap_timestamp = 0\<rparr>
   = (None,
      \<lparr>js_globals = [(''stage'', JNum 2), (''notificationCount'', JNum 15),
                      (''tapCount'', JNum (- 3)), (''isHellMode'', JBool False)],
       js_elements =
         [(''contentArea'',
           \<lparr>innerHTML = ''<p class='' @ [squote] @ ''a'' @ [squote] @ ''>hi</p>'', textContent = []\<rparr>),
          (''counter'', \<lparr>innerHTML = [], textContent = ''15''\<rparr>)]\<rparr>)"
  by code_simp

end
